theory Spec2Isabelle
  imports Complex_Main
begin

section \<open>JavaScript numbers and Math helpers\<close>

text \<open>
  The theory models the signal path of the two files under \<open>pages/SixLeadECG\<close>:
  \<open>ECGVisualizer.jsx\<close> (line parsing, unit conversion, filtering, ring buffers,
  recording and auto-stop, beat detection, HRV metrics) and \<open>RiskAnalysis.jsx\<close> (the
  metrics of a finished recording).  \<open>ECGVisualizer.jsx\<close> holds two versions of the
  component; the read loop and \<open>stopRecording\<close> are the same in both, and the second
  adds the beat detector and the HRV metrics.

  JavaScript numbers are modelled as exact reals: the rounding of double arithmetic and of
  the \<open>Float32Array\<close> slots, and the allocation limit of typed arrays, are not part of
  the model.  The one non-real value the pipeline tests for, NaN, is a constructor of its
  own where \<open>parseFloat\<close> can produce it; a division by zero, which JavaScript answers
  with Infinity or NaN, does not occur on the inputs of the theorems below (interval lists
  from the detector hold values of at least 333, peak lists are strictly increasing).
  \<open>Math.round\<close> rounds half-way cases up, \<open>Math.floor\<close> is the floor.
\<close>

definition Math_round :: "real \<Rightarrow> int" where
  "Math_round x = \<lfloor>x + 1 / 2\<rfloor>"

definition Math_floor :: "real \<Rightarrow> int" where
  "Math_floor x = \<lfloor>x\<rfloor>"

text \<open>\<open>Math.max(...xs)\<close> and \<open>Math.min(...xs)\<close>; every caller passes a non-empty array.\<close>

fun Math_max :: "real list \<Rightarrow> real" where
  "Math_max [] = 0"
| "Math_max (x # xs) = fold max xs x"

fun Math_min :: "real list \<Rightarrow> real" where
  "Math_min [] = 0"
| "Math_min (x # xs) = fold min xs x"

text \<open>\<open>xs.reduce((a, b) => a + b, 0)\<close>\<close>

definition reduce_sum :: "real list \<Rightarrow> real" where
  "reduce_sum xs = fold (\<lambda>b a. a + b) xs 0"

text \<open>\<open>xs.slice(-n)\<close> for \<open>n > 0\<close>: the last \<open>n\<close> elements (all of them when there are fewer).\<close>

definition slice_last :: "nat \<Rightarrow> 'a list \<Rightarrow> 'a list" where
  "slice_last n xs = drop (length xs - n) xs"

section \<open>HRV engine: \<open>calculateAdvancedHRV\<close>\<close>

datatype hrv_status = Low | Normal | High | Athletic

record hrv_metrics =
  sdnn :: real
  rmssd :: real
  pnn50 :: real
  pnn20 :: real
  meanRR :: int
  minHR :: int
  maxHR :: int
  triangularIndex :: real
  lfPower :: real
  hfPower :: real
  lfHfRatio :: real
  stressIndex :: real
  respiratoryRate :: int

text \<open>The loop \<open>for (i = 1; i < rr.length; i++)\<close> visits the successive pairs.\<close>

fun succ_diffs :: "real list \<Rightarrow> real list" where
  "succ_diffs (a # b # xs) = (b - a) # succ_diffs (b # xs)"
| "succ_diffs _ = []"

definition hrv_meanRR :: "real list \<Rightarrow> real" where
  "hrv_meanRR rr = reduce_sum rr / real (length rr)"

definition hrv_variance :: "real list \<Rightarrow> real" where
  "hrv_variance rr =
     reduce_sum (map (\<lambda>val. (val - hrv_meanRR rr)\<^sup>2) rr) / real (length rr)"

definition hrv_sdnn :: "real list \<Rightarrow> real" where
  "hrv_sdnn rr = sqrt (hrv_variance rr)"

definition hrv_rmssd :: "real list \<Rightarrow> real" where
  "hrv_rmssd rr =
     sqrt (fold (\<lambda>d s. s + d\<^sup>2) (succ_diffs rr) 0 / (real (length rr) - 1))"

definition nn_count :: "real \<Rightarrow> real list \<Rightarrow> nat" where
  "nn_count thr rr = fold (\<lambda>d c. if \<bar>d\<bar> > thr then c + 1 else c) (succ_diffs rr) 0"

definition hrv_pnn :: "real \<Rightarrow> real list \<Rightarrow> real" where
  "hrv_pnn thr rr =
     (if length rr > 1 then (real (nn_count thr rr) / (real (length rr) - 1)) * 100 else 0)"

text \<open>
  The histogram object maps a bin number to its count; \<open>maxBinCount\<close> is the largest
  count.
\<close>

definition hrv_maxBinCount :: "real list \<Rightarrow> nat" where
  "hrv_maxBinCount rr =
     (let bins = map (\<lambda>interval. Math_floor (interval / 31.25)) rr;
          histValues = map (\<lambda>b. count_list bins b) (remdups bins)
      in if length histValues > 0 then fold max histValues 0 else 1)"

definition round1 :: "real \<Rightarrow> real" where
  "round1 x = real_of_int (Math_round (x * 10)) / 10"

definition hrv_hfPower :: "real list \<Rightarrow> real" where
  "hrv_hfPower rr = real_of_int (Math_round ((hrv_rmssd rr * hrv_rmssd rr) / 100)) / 10"

definition hrv_lfPower :: "real list \<Rightarrow> real" where
  "hrv_lfPower rr =
     (let totalPower = hrv_variance rr / 100
      in max 0 (real_of_int (Math_round ((totalPower - hrv_hfPower rr) * 10)) / 10))"

definition hrv_lfHfRatio :: "real list \<Rightarrow> real" where
  "hrv_lfHfRatio rr =
     (if hrv_hfPower rr > 0.01
      then real_of_int (Math_round ((hrv_lfPower rr / hrv_hfPower rr) * 100)) / 100 else 0)"

text \<open>
  \<open>calculateAdvancedHRV\<close> reads the interval list and either returns at once (fewer than
  3 intervals, \<open>None\<close>: no state is set) or sets \<open>hrvStatus\<close> and \<open>hrvMetrics\<close>.
  The status is decided on the unrounded \<open>sdnn\<close> and \<open>rmssd\<close>; the metrics object
  holds them rounded to one decimal.
\<close>

definition calculateAdvancedHRV :: "real list \<Rightarrow> (hrv_status \<times> hrv_metrics) option" where
  "calculateAdvancedHRV rr =
     (if length rr < 3 then None
      else
        let meanRR' = hrv_meanRR rr;
            sdnn' = hrv_sdnn rr;
            rmssd' = hrv_rmssd rr;
            maxHR' = Math_round (60000 / Math_min rr);
            minHR' = Math_round (60000 / Math_max rr);
            triangularIndex' = real (length rr) / real (max 1 (hrv_maxBinCount rr));
            big = (length rr \<ge> 10);
            cv = (sdnn' / meanRR') * 100;
            stressIndex' = (if cv > 0 then real_of_int (Math_round ((10 / cv) * 100)) / 10 else 0);
            respiratoryRate' = Math_round (12 + min 8 (rmssd' / 10));
            status = (if sdnn' < 30 \<or> rmssd' < 15 then Low
                      else if sdnn' > 80 \<and> rmssd' > 40 then Athletic
                      else if sdnn' > 50 \<and> rmssd' > 25 then High
                      else Normal)
        in Some (status,
             \<lparr> sdnn = round1 sdnn',
               rmssd = round1 rmssd',
               pnn50 = round1 (hrv_pnn 50 rr),
               pnn20 = round1 (hrv_pnn 20 rr),
               meanRR = Math_round meanRR',
               minHR = minHR',
               maxHR = maxHR',
               triangularIndex = round1 triangularIndex',
               lfPower = (if big then hrv_lfPower rr else 0),
               hfPower = (if big then hrv_hfPower rr else 0),
               lfHfRatio = (if big then hrv_lfHfRatio rr else 0),
               stressIndex = stressIndex',
               respiratoryRate = respiratoryRate' \<rparr>))"

text \<open>
  The classification as the specification words it: four rules tried in order, the first
  that applies decides.
\<close>

datatype hrv_rule = Rule "real \<Rightarrow> real \<Rightarrow> bool" hrv_status

fun first_rule :: "hrv_rule list \<Rightarrow> real \<Rightarrow> real \<Rightarrow> hrv_status" where
  "first_rule [] s r = Normal"
| "first_rule (Rule c st # rs) s r = (if c s r then st else first_rule rs s r)"

definition spec_hrv_status :: "real \<Rightarrow> real \<Rightarrow> hrv_status" where
  "spec_hrv_status =
     first_rule
       [Rule (\<lambda>s r. s < 30 \<or> r < 15) Low,
        Rule (\<lambda>s r. s > 80 \<and> r > 40) Athletic,
        Rule (\<lambda>s r. s > 50 \<and> r > 25) High]"

section \<open>Beat detector: \<open>detectRPeakMultiLead\<close>\<close>

text \<open>One entry of \<open>rPeakBufferRef\<close>.\<close>

record rsample =
  signal :: real
  absSignal :: real
  time :: real

text \<open>
  The detector's refs and the React state it sets.  \<open>peaks\<close> is a ghost field, absent from
  the source: the history of the values assigned to \<open>lastRPeakRef.current\<close>, oldest first
  (the source keeps only the last one).
\<close>

record detector =
  lastRPeak :: "real option"
  rPeakBuffer :: "rsample list"
  rrIntervals :: "real list"
  heartRate :: int
  hrvState :: "hrv_status \<times> hrv_metrics"
  peaks :: "real list"

definition zero_metrics :: hrv_metrics where
  "zero_metrics =
     \<lparr> sdnn = 0, rmssd = 0, pnn50 = 0, pnn20 = 0, meanRR = 0, minHR = 0, maxHR = 0,
       triangularIndex = 0, lfPower = 0, hfPower = 0, lfHfRatio = 0, stressIndex = 0,
       respiratoryRate = 0 \<rparr>"

text \<open>The reset at the head of \<open>connect\<close> and \<open>connectBluetooth\<close>.\<close>

definition detector_init :: detector where
  "detector_init =
     \<lparr> lastRPeak = None, rPeakBuffer = [], rrIntervals = [], heartRate = 0,
       hrvState = (Normal, zero_metrics), peaks = [] \<rparr>"

text \<open>\<open>mvs[i] || 0\<close>: a missing element reads as 0.\<close>

definition elem_or_zero :: "real list \<Rightarrow> nat \<Rightarrow> real" where
  "elem_or_zero mvs i = (if i < length mvs then mvs ! i else 0)"

text \<open>
  The indices the two neighbourhood loops visit:
  \<open>for (i = midIdx - 3; i <= midIdx + 3; i++) if (i !== midIdx && i >= 0 && i < len)\<close>.
\<close>

definition neighbours :: "nat \<Rightarrow> nat \<Rightarrow> nat list" where
  "neighbours len midIdx = filter (\<lambda>i. i \<noteq> midIdx \<and> i < len) [midIdx - 3 ..< midIdx + 4]"

definition peak_threshold :: "rsample list \<Rightarrow> real" where
  "peak_threshold buf =
     (let recentAbsSignals = map absSignal buf;
          maxAbs = Math_max recentAbsSignals;
          avgAbs = reduce_sum recentAbsSignals / real (length recentAbsSignals)
      in Math_max [0.15, maxAbs * 0.5, avgAbs * 2])"

definition midSample :: "rsample list \<Rightarrow> rsample" where
  "midSample buf = buf ! (length buf div 2)"

definition isPeak :: "rsample list \<Rightarrow> bool" where
  "isPeak buf =
     (let len = length buf;
          midIdx = len div 2;
          threshold = peak_threshold buf;
          isLocalMax = list_all (\<lambda>i. \<not> signal (buf ! i) \<ge> signal (midSample buf))
                         (neighbours len midIdx);
          isLocalMin = list_all (\<lambda>i. \<not> signal (buf ! i) \<le> signal (midSample buf))
                         (neighbours len midIdx)
      in (isLocalMax \<or> (isLocalMin \<and> signal (midSample buf) < - threshold))
         \<and> absSignal (midSample buf) > threshold)"

text \<open>
  Ectopic-beat rejection: with at least 3 recent intervals, a new interval more than 30%
  away from their mean is rejected.
\<close>

definition ectopic :: "real \<Rightarrow> real list \<Rightarrow> bool" where
  "ectopic rrInterval recentRR =
     (let avgRecentRR = reduce_sum recentRR / real (length recentRR)
      in length recentRR \<ge> 3 \<and> \<bar>rrInterval - avgRecentRR\<bar> / avgRecentRR > 0.30)"

definition smoothedHR :: "real list \<Rightarrow> int" where
  "smoothedHR rrs =
     (let recentRRSlice = slice_last 4 rrs;
          avgRR = reduce_sum recentRRSlice / real (length recentRRSlice)
      in Math_round (60000 / avgRR))"

text \<open>
  What follows \<open>rrIntervalsRef.current.push(rrInterval)\<close> and the trim to 60 entries:
  \<open>rrs\<close> is the list after both.
\<close>

definition store_interval :: "real list \<Rightarrow> detector \<Rightarrow> detector" where
  "store_interval rrs st =
     st \<lparr> rrIntervals := rrs,
          heartRate := (if length rrs \<ge> 2 \<and> smoothedHR rrs \<ge> 40 \<and> smoothedHR rrs \<le> 180
                        then smoothedHR rrs else heartRate st),
          hrvState := (if length rrs \<ge> 5
                       then (case calculateAdvancedHRV rrs of
                               Some h \<Rightarrow> h | None \<Rightarrow> hrvState st)
                       else hrvState st) \<rparr>"

text \<open>
  The body of \<open>if (lastRPeakRef.current !== null)\<close> for a detected peak: the interval
  filter, the ectopic-beat rejection, the push and the \<open>while (length > 60) shift()\<close>.
\<close>

definition accept_interval :: "real \<Rightarrow> detector \<Rightarrow> detector" where
  "accept_interval rrInterval st =
     (if rrInterval \<ge> 333 \<and> rrInterval \<le> 1500 then
        if \<not> ectopic rrInterval (slice_last 8 (rrIntervals st))
        then store_interval (slice_last 60 (rrIntervals st @ [rrInterval])) st
        else st
      else st)"

text \<open>\<open>if (isPeak) { ... lastRPeakRef.current = peakTime }\<close>\<close>

definition on_peak :: "real \<Rightarrow> detector \<Rightarrow> detector" where
  "on_peak peakTime st =
     (case lastRPeak st of
        None \<Rightarrow> st
      | Some l \<Rightarrow> accept_interval (peakTime - l) st)
     \<lparr> lastRPeak := Some peakTime, peaks := peaks st @ [peakTime] \<rparr>"

text \<open>The refractory test at the head of the function.\<close>

definition in_refractory :: "real \<Rightarrow> detector \<Rightarrow> bool" where
  "in_refractory now st = (case lastRPeak st of None \<Rightarrow> False | Some l \<Rightarrow> now - l < 300)"

text \<open>The push into \<open>rPeakBufferRef\<close> and the \<open>while (length > 15) shift()\<close>.\<close>

definition push_sample :: "real \<Rightarrow> real list \<Rightarrow> rsample list \<Rightarrow> rsample list" where
  "push_sample now mvs buf =
     slice_last 15 (buf @ [\<lparr> signal = elem_or_zero mvs 1,
                             absSignal = \<bar>elem_or_zero mvs 1\<bar>, time = now \<rparr>])"

text \<open>The rest of the function once the sample is in the window.\<close>

definition test_window :: "detector \<Rightarrow> detector" where
  "test_window st =
     (if length (rPeakBuffer st) < 9 then st
      else if isPeak (rPeakBuffer st) then on_peak (time (midSample (rPeakBuffer st))) st
      else st)"

text \<open>
  One call \<open>detectRPeakMultiLead(mvs)\<close>; \<open>now\<close> is the value \<open>Date.now()\<close> returns in
  it, in milliseconds.
\<close>

definition detectRPeakMultiLead :: "real \<Rightarrow> real list \<Rightarrow> detector \<Rightarrow> detector" where
  "detectRPeakMultiLead now mvs st =
     (if in_refractory now st then st
      else test_window (st \<lparr> rPeakBuffer := push_sample now mvs (rPeakBuffer st) \<rparr>))"

text \<open>The detector after a stream of calls, each with its clock reading and sample.\<close>

definition detector_run :: "(real \<times> real list) list \<Rightarrow> detector" where
  "detector_run calls = fold (\<lambda>(now, mvs) st. detectRPeakMultiLead now mvs st) calls detector_init"

text \<open>
  A 125 Hz stream (one sample every 8 ms) whose Lead II is 0 except at the listed sample
  numbers.
\<close>

definition stream125 :: "(nat \<times> real) list \<Rightarrow> nat \<Rightarrow> (real \<times> real list) list" where
  "stream125 spikes n =
     map (\<lambda>i. (8 * real i,
               [0, (case map_of spikes i of None \<Rightarrow> 0 | Some v \<Rightarrow> v), 0, 0, 0, 0])) [0 ..< n]"


section \<open>Morphology/Risk engine: \<open>RiskAnalysis.jsx\<close>\<close>

datatype risk_status = StNormal | StWarning | StDanger | StUnknown

text \<open>A metric is the string \<open>'--'\<close> or a value.\<close>

datatype 'a metric = Dashes | Val 'a

record hr_data =
  hr :: "int metric"
  hr_status :: risk_status
  hr_rrInterval :: "int metric"

record hrv_data =
  hrv_sdnn_ms :: "int metric"
  hrv_rmssd_ms :: "int metric"
  hrv_status :: risk_status

record qrs_data =
  qrs_duration :: "int metric"
  qrs_status :: risk_status

record qt_data =
  qt :: "int metric"
  qtc :: "int metric"
  qt_status :: risk_status

text \<open>
  \<open>deviation\<close> is \<open>deviationMm.toFixed(1)\<close> in the source; the model keeps the number
  that is formatted, \<open>None\<close> when it is NaN.
\<close>

record st_data =
  st_deviation :: "real option metric"
  st_status :: risk_status

datatype risk_level = LevelLow | LevelMedium | LevelHigh | LevelUnknown

record risk_data =
  score :: nat
  level :: risk_level
  factors :: "string list"

record risk_metrics =
  m_hr :: hr_data
  m_hrv :: hrv_data
  m_qrs :: qrs_data
  m_qt :: qt_data
  m_st :: st_data
  m_risk :: risk_data

definition getDefaultMetrics :: risk_metrics where
  "getDefaultMetrics =
     \<lparr> m_hr = \<lparr> hr = Dashes, hr_status = StUnknown, hr_rrInterval = Dashes \<rparr>,
       m_hrv = \<lparr> hrv_sdnn_ms = Dashes, hrv_rmssd_ms = Dashes, hrv_status = StUnknown \<rparr>,
       m_qrs = \<lparr> qrs_duration = Dashes, qrs_status = StUnknown \<rparr>,
       m_qt = \<lparr> qt = Dashes, qtc = Dashes, qt_status = StUnknown \<rparr>,
       m_st = \<lparr> st_deviation = Dashes, st_status = StUnknown \<rparr>,
       m_risk = \<lparr> score = 0, level = LevelUnknown, factors = [] \<rparr> \<rparr>"

text \<open>
  \<open>samples[i]\<close>: \<open>undefined\<close> outside the array, and every comparison with
  \<open>undefined\<close> (or with the NaN that arithmetic makes of it) is false.
\<close>

definition rd :: "real list \<Rightarrow> int \<Rightarrow> real option" where
  "rd xs i = (if 0 \<le> i \<and> i < int (length xs) then Some (xs ! nat i) else None)"

definition cmp_opt :: "(real \<Rightarrow> real \<Rightarrow> bool) \<Rightarrow> real option \<Rightarrow> real option \<Rightarrow> bool" where
  "cmp_opt rel a b = (case a of None \<Rightarrow> False | Some x \<Rightarrow> (case b of None \<Rightarrow> False | Some y \<Rightarrow> rel x y))"

definition maxAmp :: "real list \<Rightarrow> real" where
  "maxAmp samples = fold (\<lambda>x m. if \<bar>x\<bar> > m then \<bar>x\<bar> else m) samples 0"

text \<open>The inner loop of \<open>detectRPeaks\<close>: no other sample of the window reaches sample i.\<close>

definition isMax :: "real list \<Rightarrow> int \<Rightarrow> int \<Rightarrow> bool" where
  "isMax samples windowSize i =
     list_all (\<lambda>j. \<not> (j \<noteq> i \<and> cmp_opt (\<ge>) (rd samples j) (rd samples i)))
       [i - windowSize .. i + windowSize]"

text \<open>One iteration of the outer loop, on the pair \<open>(peaks, lastPeakIdx)\<close>.\<close>

definition peak_scan ::
  "real list \<Rightarrow> int \<Rightarrow> int \<Rightarrow> real \<Rightarrow> int \<Rightarrow> int list \<times> int \<Rightarrow> int list \<times> int" where
  "peak_scan samples windowSize minPeakDistance threshold i acc =
     (if cmp_opt (>) (rd samples i) (Some threshold) \<and> i - snd acc > minPeakDistance
         \<and> isMax samples windowSize i
      then (fst acc @ [i], i) else acc)"

definition detectRPeaks :: "real list \<Rightarrow> real \<Rightarrow> int list" where
  "detectRPeaks samples sr =
     fst (fold (peak_scan samples (Math_floor (sr * 0.1)) (Math_floor (sr * 0.3))
                  (maxAmp samples * 0.5))
            [Math_floor (sr * 0.1) .. int (length samples) - Math_floor (sr * 0.1) - 1]
            ([], - Math_floor (sr * 0.3)))"

text \<open>The successive differences \<open>rPeaks[i] - rPeaks[i - 1]\<close>.\<close>

definition peak_gaps :: "int list \<Rightarrow> real list" where
  "peak_gaps rPeaks = succ_diffs (map real_of_int rPeaks)"

definition calculateHeartRate :: "int list \<Rightarrow> real \<Rightarrow> hr_data" where
  "calculateHeartRate rPeaks sr =
     (if length rPeaks < 2 then \<lparr> hr = Dashes, hr_status = StUnknown, hr_rrInterval = Dashes \<rparr>
      else
        let rrIntervals = map (\<lambda>d. d / sr) (peak_gaps rPeaks);
            avgRR = reduce_sum rrIntervals / real (length rrIntervals);
            hr' = Math_round (60 / avgRR);
            status = (if hr' < 60 then StWarning
                      else if hr' > 100 then StWarning
                      else if hr' < 50 \<or> hr' > 120 then StDanger
                      else StNormal)
        in \<lparr> hr = Val hr', hr_status = status, hr_rrInterval = Val (Math_round (avgRR * 1000)) \<rparr>)"

text \<open>\<open>calculateHRV\<close> of \<open>RiskAnalysis.jsx\<close> (SDNN and RMSSD of the peak list).\<close>

definition risk_calculateHRV :: "int list \<Rightarrow> real \<Rightarrow> hrv_data" where
  "risk_calculateHRV rPeaks sr =
     (if length rPeaks < 3
      then \<lparr> hrv_sdnn_ms = Dashes, hrv_rmssd_ms = Dashes, hrv_status = StUnknown \<rparr>
      else
        let rrIntervals = map (\<lambda>d. d / sr * 1000) (peak_gaps rPeaks);
            sdnn' = Math_round (hrv_sdnn rrIntervals);
            rmssd' = Math_round (hrv_rmssd rrIntervals)
        in \<lparr> hrv_sdnn_ms = Val sdnn', hrv_rmssd_ms = Val rmssd',
             hrv_status = (if sdnn' < 30 then StDanger else if sdnn' < 50 then StWarning
                           else StNormal) \<rparr>)"

text \<open>
  The two searches of \<open>estimateQRSDuration\<close> around one peak: the first index, going
  backward (forward) from the peak, whose magnitude is below 30% of the peak's; the peak
  itself when there is none.
\<close>

definition below_30 :: "real list \<Rightarrow> int \<Rightarrow> int \<Rightarrow> bool" where
  "below_30 samples peakIdx i =
     cmp_opt (\<lambda>x a. \<bar>x\<bar> < \<bar>a\<bar> * 0.3) (rd samples i) (rd samples peakIdx)"

definition qStart :: "real list \<Rightarrow> int \<Rightarrow> int \<Rightarrow> int" where
  "qStart samples searchWindow peakIdx =
     (case find (below_30 samples peakIdx)
             (rev [max 0 (peakIdx - searchWindow) + 1 .. peakIdx]) of
        None \<Rightarrow> peakIdx | Some i \<Rightarrow> i)"

definition qEnd :: "real list \<Rightarrow> int \<Rightarrow> int \<Rightarrow> int" where
  "qEnd samples searchWindow peakIdx =
     (case find (below_30 samples peakIdx)
             [peakIdx .. min (int (length samples)) (peakIdx + searchWindow) - 1] of
        None \<Rightarrow> peakIdx | Some i \<Rightarrow> i)"

definition qrsMs :: "real list \<Rightarrow> real \<Rightarrow> int \<Rightarrow> real" where
  "qrsMs samples sr peakIdx =
     (real_of_int (qEnd samples (Math_floor (sr * 0.1)) peakIdx
                   - qStart samples (Math_floor (sr * 0.1)) peakIdx) / sr) * 1000"

definition estimateQRSDuration :: "real list \<Rightarrow> int list \<Rightarrow> real \<Rightarrow> qrs_data" where
  "estimateQRSDuration samples rPeaks sr =
     (if length rPeaks < 1 then \<lparr> qrs_duration = Dashes, qrs_status = StUnknown \<rparr>
      else
        let qrsWidths = filter (\<lambda>w. w > 40 \<and> w < 200) (map (qrsMs samples sr) rPeaks)
        in if length qrsWidths = 0 then \<lparr> qrs_duration = Dashes, qrs_status = StUnknown \<rparr>
           else
             let avgQRS = Math_round (reduce_sum qrsWidths / real (length qrsWidths))
             in \<lparr> qrs_duration = Val avgQRS,
                  qrs_status = (if avgQRS > 120 then StDanger else if avgQRS > 100 then StWarning
                                else StNormal) \<rparr>)"

definition estimateQTInterval :: "int list \<Rightarrow> int metric \<Rightarrow> qt_data" where
  "estimateQTInterval rPeaks hrv =
     (case hrv of
        Dashes \<Rightarrow> \<lparr> qt = Dashes, qtc = Dashes, qt_status = StUnknown \<rparr>
      | Val h \<Rightarrow>
          if length rPeaks < 2 \<or> h \<le> 0 then \<lparr> qt = Dashes, qtc = Dashes, qt_status = StUnknown \<rparr>
          else
            let avgRR = 60 / real_of_int h;
                estimatedQT = avgRR * 0.4 * 1000;
                qtc' = Math_round (estimatedQT / sqrt avgRR)
            in \<lparr> qt = Val (Math_round estimatedQT), qtc = Val qtc',
                 qt_status = (if qtc' > 450 then StDanger else if qtc' > 430 then StWarning
                              else StNormal) \<rparr>)"

text \<open>
  \<open>checkSTDeviation\<close>.  A read outside the array is \<open>undefined\<close> and turns the sum it
  enters into NaN (\<open>None\<close>).
\<close>

definition sum_rd :: "real list \<Rightarrow> int list \<Rightarrow> real option" where
  "sum_rd samples js =
     fold (\<lambda>j acc. case acc of None \<Rightarrow> None
                     | Some a \<Rightarrow> (case rd samples j of None \<Rightarrow> None | Some x \<Rightarrow> Some (a + x)))
       js (Some 0)"

definition st_baseline :: "real list \<Rightarrow> real \<Rightarrow> int \<Rightarrow> real option" where
  "st_baseline samples sr peakIdx =
     (let js = [max 0 (peakIdx - Math_floor (sr * 0.1)) .. peakIdx - Math_floor (sr * 0.05) - 1]
      in if length js > 0 then map_option (\<lambda>b. b / real (length js)) (sum_rd samples js)
         else Some 0)"

fun st_deviations :: "real list \<Rightarrow> real \<Rightarrow> int list \<Rightarrow> real option list" where
  "st_deviations samples sr (peakIdx # nextPeakIdx # rest) =
     (let stIdx = peakIdx + Math_floor (sr * 0.06) + Math_floor (sr * 0.08)
      in (if stIdx < nextPeakIdx \<and> stIdx < int (length samples)
          then [case rd samples stIdx of
                  None \<Rightarrow> None
                | Some stValue \<Rightarrow> map_option (\<lambda>b. stValue - b) (st_baseline samples sr peakIdx)]
          else [])
         @ st_deviations samples sr (nextPeakIdx # rest))"
| "st_deviations samples sr _ = []"

definition checkSTDeviation :: "real list \<Rightarrow> int list \<Rightarrow> real \<Rightarrow> st_data" where
  "checkSTDeviation samples rPeaks sr =
     (if length rPeaks < 2 then \<lparr> st_deviation = Dashes, st_status = StUnknown \<rparr>
      else
        let stDeviations = st_deviations samples sr rPeaks
        in if length stDeviations = 0 then \<lparr> st_deviation = Dashes, st_status = StUnknown \<rparr>
           else if list_all (\<lambda>d. d \<noteq> None) stDeviations then
             let deviationMm = (reduce_sum (map the stDeviations) / real (length stDeviations)) * 10
             in \<lparr> st_deviation = Val (Some deviationMm),
                  st_status = (if \<bar>deviationMm\<bar> > 1.0 then StDanger
                               else if \<bar>deviationMm\<bar> > 0.5 then StWarning else StNormal) \<rparr>
           else \<lparr> st_deviation = Val None, st_status = StNormal \<rparr>)"

text \<open>
  \<open>calculateRiskScore\<close>: the points and factor names of each metric, in the order the
  source adds them.
\<close>

definition points :: "risk_status \<Rightarrow> nat \<Rightarrow> string \<Rightarrow> string \<Rightarrow> nat \<times> string list" where
  "points st dangerPoints warningName dangerName =
     (if st = StWarning then (1, [warningName])
      else if st = StDanger then (dangerPoints, [dangerName]) else (0, []))"

definition calculateRiskScore ::
  "hr_data \<Rightarrow> hrv_data \<Rightarrow> qrs_data \<Rightarrow> qt_data \<Rightarrow> st_data \<Rightarrow> risk_data" where
  "calculateRiskScore hrd hrvd qrsd qtd std =
     (let parts = [points (hr_status hrd) 2 ''HR abnormal'' ''HR critical'',
                   points (hrv_status hrvd) 2 ''Low HRV'' ''Very low HRV'',
                   points (qrs_status qrsd) 2 ''Wide QRS'' ''QRS >120ms'',
                   points (qt_status qtd) 2 ''Borderline QTc'' ''Prolonged QTc'',
                   points (st_status std) 3 ''ST deviation'' ''Significant ST change''];
          score' = sum_list (map fst parts)
      in \<lparr> score = score',
           level = (if score' \<ge> 6 then LevelHigh else if score' \<ge> 3 then LevelMedium
                    else LevelLow),
           factors = concat (map snd parts) \<rparr>)"

text \<open>
  The props of the component: \<open>leadData\<close> may be absent, and so may its \<open>leadII\<close>.
\<close>

record lead_data =
  leadII :: "real list option"

text \<open>
  The \<open>useMemo\<close> body.  Next to the metrics the model returns the analysis functions
  the body called, in call order, so that a path that calls none is told apart.
\<close>

datatype stage =
  DetectRPeaks | CalculateHeartRate | CalculateHRV | EstimateQRSDuration
  | EstimateQTInterval | CheckSTDeviation | CalculateRiskScore

definition analyse :: "real list \<Rightarrow> real \<Rightarrow> risk_metrics" where
  "analyse samples sampleRate =
     (let rPeaks = detectRPeaks samples sampleRate;
          hrData = calculateHeartRate rPeaks sampleRate;
          hrvData = risk_calculateHRV rPeaks sampleRate;
          qrsData = estimateQRSDuration samples rPeaks sampleRate;
          qtData = estimateQTInterval rPeaks (hr hrData);
          stData = checkSTDeviation samples rPeaks sampleRate
      in \<lparr> m_hr = hrData, m_hrv = hrvData, m_qrs = qrsData, m_qt = qtData, m_st = stData,
           m_risk = calculateRiskScore hrData hrvData qrsData qtData stData \<rparr>)"

definition RiskAnalysis :: "lead_data option \<Rightarrow> real \<Rightarrow> stage list \<times> risk_metrics" where
  "RiskAnalysis leadData sampleRate =
     (case leadData of
        None \<Rightarrow> ([], getDefaultMetrics)
      | Some ld \<Rightarrow>
          (case leadII ld of
             None \<Rightarrow> ([], getDefaultMetrics)
           | Some samples \<Rightarrow>
               if real (length samples) < sampleRate * 2 then ([], getDefaultMetrics)
               else ([DetectRPeaks, CalculateHeartRate, CalculateHRV, EstimateQRSDuration,
                      EstimateQTInterval, CheckSTDeviation, CalculateRiskScore],
                     analyse samples sampleRate)))"

text \<open>A Lead II strip: \<open>n\<close> beats, each \<open>period\<close> samples long with a 1 mV spike at \<open>pos\<close>.\<close>

definition spike_train :: "nat \<Rightarrow> nat \<Rightarrow> nat \<Rightarrow> real list" where
  "spike_train n period pos =
     concat (replicate n (replicate pos 0 @ [1] @ replicate (period - pos - 1) 0))"

section \<open>Acquisition pipeline: the sample parser of \<open>connect\<close>\<close>

subsection \<open>String primitives\<close>

text \<open>
  Lines are 8-bit strings.  \<open>trim\<close> strips the ASCII white space (the further
  Unicode white space that \<open>String.prototype.trim\<close> strips, such as U+00A0, is outside
  this model), \<open>toLowerCase\<close> maps A-Z to a-z, \<open>str_includes\<close> is
  \<open>String.prototype.includes\<close>.
\<close>

definition is_ws :: "char \<Rightarrow> bool" where
  "is_ws c \<longleftrightarrow> (of_char c :: nat) = 32 \<or> (9 \<le> (of_char c :: nat) \<and> (of_char c :: nat) \<le> 13)"

definition trim :: "string \<Rightarrow> string" where
  "trim s = rev (dropWhile is_ws (rev (dropWhile is_ws s)))"

definition lower_char :: "char \<Rightarrow> char" where
  "lower_char c =
     (case map_of (zip ''ABCDEFGHIJKLMNOPQRSTUVWXYZ'' ''abcdefghijklmnopqrstuvwxyz'') c of
        Some l \<Rightarrow> l | None \<Rightarrow> c)"

definition toLowerCase :: "string \<Rightarrow> string" where
  "toLowerCase s = map lower_char s"

fun starts_with :: "string \<Rightarrow> string \<Rightarrow> bool" where
  "starts_with s [] = True"
| "starts_with [] (p # ps) = False"
| "starts_with (c # cs) (p # ps) = (c = p \<and> starts_with cs ps)"

fun str_includes :: "string \<Rightarrow> string \<Rightarrow> bool" where
  "str_includes [] pat = (pat = [])"
| "str_includes (c # cs) pat = (starts_with (c # cs) pat \<or> str_includes cs pat)"

definition is_digit :: "char \<Rightarrow> bool" where
  "is_digit c \<longleftrightarrow> 48 \<le> (of_char c :: nat) \<and> (of_char c :: nat) \<le> 57"

definition digit_val :: "char \<Rightarrow> nat" where
  "digit_val c = of_char c - 48"

definition digits_val :: "string \<Rightarrow> nat" where
  "digits_val ds = foldl (\<lambda>n c. 10 * n + digit_val c) 0 ds"

subsection \<open>Numeric tokens\<close>

text \<open>
  One match of the regular expression \<open>-?\d+(?:\.\d+)?\<close> at the head of a string, if
  there is one: an optional minus sign, the longest run of digits (at least one), and a
  fraction if a dot and at least one digit follow.
\<close>

definition fraction_digits :: "string \<Rightarrow> string" where
  "fraction_digits r =
     (case r of [] \<Rightarrow> [] | c # r2 \<Rightarrow> if c = CHR ''.'' then takeWhile is_digit r2 else [])"

definition matchNum :: "string \<Rightarrow> string option" where
  "matchNum s =
     (let sign = (if starts_with s ''-'' then ''-'' else []);
          r0 = drop (length sign) s;
          ds = takeWhile is_digit r0;
          fs = fraction_digits (dropWhile is_digit r0)
      in if ds = [] then None
         else if fs = [] then Some (sign @ ds)
         else Some (sign @ ds @ ''.'' @ fs))"

text \<open>
  \<open>line.match(/-?\d+(?:\.\d+)?/g)\<close>: the matches from left to right, each search
  resuming where the last match ended.
\<close>

fun numTokens :: "string \<Rightarrow> string list" where
  "numTokens [] = []"
| "numTokens (c # cs) =
     (case matchNum (c # cs) of
        None \<Rightarrow> numTokens cs
      | Some tok \<Rightarrow> tok # numTokens (drop (length tok - 1) cs))"

text \<open>\<open>parseFloat\<close> on a token of that shape: its decimal value.\<close>

definition parseFloat_token :: "string \<Rightarrow> real" where
  "parseFloat_token tok =
     (let neg = starts_with tok ''-'';
          body = (if neg then tl tok else tok);
          ip = takeWhile is_digit body;
          fp = fraction_digits (dropWhile is_digit body);
          v = real (digits_val ip) + real (digits_val fp) / 10 ^ length fp
      in if neg then - v else v)"

definition nums_of :: "string \<Rightarrow> real list" where
  "nums_of line = map parseFloat_token (numTokens line)"

subsection \<open>The parse of one line\<close>

text \<open>A parsed value: a number, or the NaN \<open>parseFloat\<close> gives on a non-numeric value.\<close>

datatype jsnum = Num real | NaN

text \<open>
  The 2-value case of the parser: the six leads from Lead I and Lead II, with the source's
  \<open>ra = 0.0, la = lead1, ll = lead2\<close>.
\<close>

definition derive_leads :: "real \<Rightarrow> real \<Rightarrow> real list" where
  "derive_leads lead1 lead2 =
     (let lead3 = lead2 - lead1;
          ra = 0; la = lead1; ll = lead2;
          avr = ra - (la + ll) / 2;
          avl = la - (ra + ll) / 2;
          avf = ll - (ra + la) / 2
      in [lead1, lead2, lead3, avr, avl, avf])"

text \<open>
  The structured branch, \<open>JSON.parse(line)\<close> followed by the test for the six keys and
  \<open>parseFloat\<close> of their values.  \<open>JSON.parse\<close> is the host's: its outcome on a line is
  the parameter \<open>json_leads\<close> (the six parsed values when the line is a JSON object with
  the keys \<open>lead1, lead2, lead3, avr, avl, avf\<close>, \<open>None\<close> when the parse throws or the
  test fails).  A JSON text that denotes an object begins with a brace, and the line is
  trimmed, so no other line takes this branch.
\<close>

type_synonym six = "jsnum \<times> jsnum \<times> jsnum \<times> jsnum \<times> jsnum \<times> jsnum"

fun six_list :: "six \<Rightarrow> jsnum list" where
  "six_list (a, b, c, d, e, f) = [a, b, c, d, e, f]"

definition structured_leads :: "(string \<Rightarrow> six option) \<Rightarrow> string \<Rightarrow> jsnum list option" where
  "structured_leads json_leads line =
     (if starts_with line ''{'' then map_option six_list (json_leads line) else None)"

text \<open>The block from \<open>let arr = null\<close> to \<open>if (!arr) continue\<close>; \<open>None\<close> is \<open>arr = null\<close>.\<close>

definition parseSample :: "(string \<Rightarrow> six option) \<Rightarrow> string \<Rightarrow> jsnum list option" where
  "parseSample json_leads line =
     (case structured_leads json_leads line of
        Some arr \<Rightarrow> Some arr
      | None \<Rightarrow>
          if length (nums_of line) \<ge> 6 then Some (map Num (take 6 (nums_of line)))
          else if length (nums_of line) = 2
          then Some (map Num (derive_leads (nums_of line ! 0) (nums_of line ! 1)))
          else None)"

section \<open>Acquisition pipeline: filters, buffers, recording\<close>

subsection \<open>Settings\<close>

text \<open>
  \<open>sampleRate\<close> and \<open>secondsWindow\<close> are integers: they start at 125 and 5, and their
  only setters store \<open>Math.max(1, parseInt(v) || 125)\<close> and \<open>parseInt(v) || 1\<close>
  (\<open>None\<close> is the NaN of \<open>parseInt\<close>).
\<close>

definition setSampleRate_input :: "int option \<Rightarrow> int" where
  "setSampleRate_input v = max 1 (case v of None \<Rightarrow> 125 | Some n \<Rightarrow> if n = 0 then 125 else n)"

definition setSecondsWindow_input :: "int option \<Rightarrow> int" where
  "setSecondsWindow_input v = (case v of None \<Rightarrow> 1 | Some n \<Rightarrow> if n = 0 then 1 else n)"

datatype units = Mv | Adc

definition valueToMv :: "units \<Rightarrow> jsnum \<Rightarrow> real" where
  "valueToMv inputUnits v =
     (case v of
        NaN \<Rightarrow> 0
      | Num x \<Rightarrow> if inputUnits = Adc then ((x * 5.0) / 1023) * 1000 else x)"

subsection \<open>Filter bank\<close>

text \<open>
  \<open>hpAlphaRef\<close>, \<open>lpAlphaRef\<close>, \<open>hpStateRef\<close> (pairs \<open>(x1, y1)\<close>) and
  \<open>lpStateRef\<close> (\<open>y1\<close>), one state per lead.
\<close>

record filters =
  hpAlpha :: real
  lpAlpha :: real
  hpState :: "(real \<times> real) list"
  lpState :: "real list"

text \<open>The effect that recomputes the coefficients and zeroes the states.\<close>

definition filter_reset :: "int \<Rightarrow> filters" where
  "filter_reset sampleRate =
     (let dt = 1 / real_of_int (max 1 sampleRate);
          hpRc = 1 / (2 * pi * 0.5);
          lpRc = 1 / (2 * pi * 40)
      in \<lparr> hpAlpha = hpRc / (hpRc + dt), lpAlpha = dt / (lpRc + dt),
           hpState = replicate 6 (0, 0), lpState = replicate 6 0 \<rparr>)"

text \<open>\<open>filterSample(leadIdx, x)\<close>; both state arrays hold the six leads.\<close>

definition filterSample :: "nat \<Rightarrow> real \<Rightarrow> filters \<Rightarrow> real \<times> filters" where
  "filterSample leadIdx x f =
     (let yHP = hpAlpha f * (snd (hpState f ! leadIdx) + x - fst (hpState f ! leadIdx));
          y = lpState f ! leadIdx + lpAlpha f * (yHP - lpState f ! leadIdx)
      in (y, f \<lparr> hpState := (hpState f)[leadIdx := (x, yHP)],
                  lpState := (lpState f)[leadIdx := y] \<rparr>))"

text \<open>\<open>for (i = 0; i < mvs.length; i++) mvs[i] = filterSample(i, mvs[i])\<close>, from lead \<open>i\<close> on.\<close>

fun filter_from :: "nat \<Rightarrow> real list \<Rightarrow> filters \<Rightarrow> real list \<times> filters" where
  "filter_from i [] f = ([], f)"
| "filter_from i (x # xs) f =
     (case filterSample i x f of
        (y, f') \<Rightarrow> (case filter_from (Suc i) xs f' of (ys, f'') \<Rightarrow> (y # ys, f'')))"

subsection \<open>Report objects\<close>

text \<open>
  \<open>snap\<close> and \<open>normalized\<close> are JavaScript objects: maps from property names to
  arrays, \<open>null\<close> or the metadata object.  A name that is not in the map is a property
  the object does not have (\<open>undefined\<close>).
\<close>

record meta =
  excerptSeconds :: real
  captureAt :: "int option"
  sampleIndexEnd :: "int option"

datatype jsval = JArr "real list" | JNull | JMeta meta

type_synonym jsobject = "string \<rightharpoonup> jsval"

definition leads :: "string list" where
  "leads = [''Lead I'', ''Lead II'', ''Lead III'', ''aVR'', ''aVL'', ''aVF'']"

definition shorts :: "string list" where
  "shorts = [''I'', ''II'', ''III'', ''aVR'', ''aVL'', ''aVF'']"

text \<open>\<open>arr.slice(start, end)\<close> and \<open>arr.slice(start)\<close>, negative indices counting from the end.\<close>

definition slice_index :: "nat \<Rightarrow> int \<Rightarrow> nat" where
  "slice_index len i = (if i < 0 then nat (max (int len + i) 0) else min (nat i) len)"

definition js_slice :: "int \<Rightarrow> int \<Rightarrow> 'a list \<Rightarrow> 'a list" where
  "js_slice start fin xs =
     take (slice_index (length xs) fin - slice_index (length xs) start)
       (drop (slice_index (length xs) start) xs)"

definition js_slice_from :: "int \<Rightarrow> 'a list \<Rightarrow> 'a list" where
  "js_slice_from start xs = drop (slice_index (length xs) start) xs"

text \<open>
  The excerpt of one lead on auto-stop: the second that ends at \<open>captureSecond\<close>, or the
  tail of the array when it is shorter than that.
\<close>

definition auto_excerpt :: "int \<Rightarrow> int \<Rightarrow> real list \<Rightarrow> real list" where
  "auto_excerpt sampleRate captureSecond arr =
     (let oneSecondSamples = Math_floor (1 * real_of_int sampleRate);
          sampleIndexEnd = Math_floor (real_of_int captureSecond * real_of_int sampleRate);
          startIdx = (if sampleIndexEnd - oneSecondSamples < 0 then 0
                      else sampleIndexEnd - oneSecondSamples)
      in if int (length arr) \<ge> sampleIndexEnd
         then js_slice (max 0 startIdx) (min sampleIndexEnd (int (length arr))) arr
         else if int (length arr) > oneSecondSamples then js_slice_from (- oneSecondSamples) arr
         else arr)"

text \<open>Storing one array per lead name, in the order of \<open>leads\<close>.\<close>

fun put_leads :: "string list \<Rightarrow> real list list \<Rightarrow> jsobject \<Rightarrow> jsobject" where
  "put_leads (name # names) (arr # arrs) obj = put_leads names arrs (obj(name \<mapsto> JArr arr))"
| "put_leads _ _ obj = obj"

definition auto_snapshot :: "int \<Rightarrow> int \<Rightarrow> real list list \<Rightarrow> jsobject" where
  "auto_snapshot sampleRate captureSecond data =
     (put_leads leads (map (auto_excerpt sampleRate captureSecond) data) Map.empty)
       (''__meta'' \<mapsto> JMeta \<lparr> excerptSeconds = 1, captureAt = Some captureSecond,
            sampleIndexEnd =
              Some (Math_floor (real_of_int captureSecond * real_of_int sampleRate)) \<rparr>)"

definition manual_snapshot :: "int \<Rightarrow> real list list \<Rightarrow> jsobject" where
  "manual_snapshot sampleRate data =
     (put_leads leads data Map.empty)
       (''__meta'' \<mapsto> JMeta \<lparr> excerptSeconds =
              real (case data of [] \<Rightarrow> 0 | arr # _ \<Rightarrow> length arr) / real_of_int sampleRate,
            captureAt = None, sampleIndexEnd = None \<rparr>)"

text \<open>
  \<open>a || b || c\<close> on property reads, then \<open>setLead\<close>'s \<open>if (!arr) arr = null\<close>: the
  first read that is neither \<open>undefined\<close> nor \<open>null\<close>, else \<open>null\<close>.
\<close>

fun first_truthy :: "jsval option list \<Rightarrow> jsval" where
  "first_truthy [] = JNull"
| "first_truthy (None # vs) = first_truthy vs"
| "first_truthy (Some JNull # vs) = first_truthy vs"
| "first_truthy (Some v # vs) = v"

definition setLead :: "string \<Rightarrow> string \<Rightarrow> jsval \<Rightarrow> jsobject \<Rightarrow> jsobject" where
  "setLead short long arr normalized = normalized(short \<mapsto> arr, long \<mapsto> arr)"

fun populate :: "jsobject \<Rightarrow> (string \<times> string) list \<Rightarrow> jsobject \<Rightarrow> jsobject" where
  "populate snap [] normalized = normalized"
| "populate snap ((short, long) # rest) normalized =
     populate snap rest
       (setLead short long (first_truthy [snap long, snap short, snap (''Lead '' @ short)])
          normalized)"

definition missing :: "jsobject \<Rightarrow> string \<Rightarrow> bool" where
  "missing obj k = (case obj k of None \<Rightarrow> True | Some JNull \<Rightarrow> True | Some _ \<Rightarrow> False)"

text \<open>The derivation of absent leads from I and II when \<open>advancedReport\<close> is on.\<close>

definition derive_missing :: "jsobject \<Rightarrow> jsobject" where
  "derive_missing normalized =
     (case (normalized ''I'', normalized ''II'') of
        (Some (JArr lI), Some (JArr lII)) \<Rightarrow>
          let n1 = (if missing normalized ''III'' \<or> missing normalized ''Lead III''
                    then setLead ''III'' ''Lead III'' (JArr (map2 (\<lambda>i ii. ii - i) lI lII)) normalized
                    else normalized)
          in if missing n1 ''aVR'' \<or> missing n1 ''aVL'' \<or> missing n1 ''aVF''
             then setLead ''aVF'' ''aVF'' (JArr (map2 (\<lambda>la ll. ll - (0 + la) / 2) lI lII))
                   (setLead ''aVL'' ''aVL'' (JArr (map2 (\<lambda>la ll. la - (0 + ll) / 2) lI lII))
                     (setLead ''aVR'' ''aVR'' (JArr (map2 (\<lambda>la ll. 0 - (la + ll) / 2) lI lII)) n1))
             else n1
      | _ \<Rightarrow> normalized)"

definition normalize_snap :: "bool \<Rightarrow> jsobject \<Rightarrow> jsobject" where
  "normalize_snap advancedReport snap =
     (let normalized = populate snap (zip shorts leads) Map.empty
      in if advancedReport then derive_missing normalized else normalized)"

subsection \<open>Pipeline state\<close>

text \<open>\<open>recordRef.current\<close>; \<open>dataR\<close> holds the six growing arrays in the order of \<open>leads\<close>.\<close>

record rec_session =
  active :: bool
  dataR :: "real list list option"
  count :: nat
  startTime :: "real option"

text \<open>
  The refs of the component and the React state its setters write.  \<open>calibrating\<close> is the
  state \<open>isCalibrating\<close> as last set by \<open>setIsCalibrating\<close>; \<open>calibTimeoutArmed\<close> says
  whether the 5 s \<open>calibTimeout\<close> is still pending.
\<close>

record pipeline =
  calibrating :: bool
  calibTimeoutArmed :: bool
  sampleRateRef :: int
  filtersRef :: filters
  recordRef :: rec_session
  autoStopTriggered :: bool
  bufferRef :: "real list list"
  writeIndex :: nat
  recordingProgress :: real
  isRecordingState :: bool
  isWaitingState :: bool
  waitProgress :: real
  recordedData :: "jsobject option"
  frozenBuffer :: "real option list list option"
  freezeDisplay :: bool
  manualStop :: bool

text \<open>
  The values a function of the component reads from the render that created it.
  \<open>connect\<close> runs its read loop for the whole connection inside one such closure: the
  identifiers \<open>isCalibrating\<close>, \<open>filterOn\<close>, \<open>inputUnits\<close>, \<open>sampleRate\<close>,
  \<open>secondsWindow\<close>, \<open>isRecording\<close> and \<open>advancedReport\<close> in its body are the
  \<open>const\<close> bindings \<open>useState\<close> returned in that render.  A setter changes the state
  later renders see, not these bindings.
\<close>

record render_closure =
  isCalibrating :: bool
  filterOn :: bool
  inputUnits :: units
  sampleRate :: int
  secondsWindow :: int
  isRecording :: bool
  advancedReport :: bool

subsection \<open>Ring buffers\<close>

text \<open>
  The effect on \<open>[secondsWindow, sampleRate]\<close>: six new zero-filled arrays and the write
  cursor at 0.
\<close>

definition buffer_capacity :: "int \<Rightarrow> int \<Rightarrow> nat" where
  "buffer_capacity sr sw = nat (max 1 (Math_floor (real_of_int sr * real_of_int sw)))"

definition buffer_reset :: "int \<Rightarrow> int \<Rightarrow> pipeline \<Rightarrow> pipeline" where
  "buffer_reset sr sw st =
     st \<lparr> bufferRef := map (\<lambda>_. replicate (buffer_capacity sr sw) 0) leads, writeIndex := 0 \<rparr>"

text \<open>
  The write of one sample: \<open>samples\<close> is the length of the first buffer, or the computed
  capacity when there is none; a missing buffer is created; a typed array ignores a write
  past its end, as list update does.
\<close>

definition ring_samples :: "render_closure \<Rightarrow> real list list \<Rightarrow> nat" where
  "ring_samples cl bufs =
     (case bufs of
        [] \<Rightarrow> buffer_capacity (sampleRate cl) (secondsWindow cl)
      | b # _ \<Rightarrow> if length b = 0 then buffer_capacity (sampleRate cl) (secondsWindow cl)
                 else length b)"

definition write_buffers :: "render_closure \<Rightarrow> real list \<Rightarrow> pipeline \<Rightarrow> pipeline" where
  "write_buffers cl mvs st =
     (let samples = ring_samples cl (bufferRef st);
          bufs = bufferRef st @ replicate (length mvs - length (bufferRef st)) (replicate samples 0)
      in st \<lparr> bufferRef := map (\<lambda>(i, b). if i < length mvs then b[writeIndex st := mvs ! i] else b)
                              (zip [0 ..< length bufs] bufs),
              writeIndex := (writeIndex st + 1) mod samples \<rparr>)"

subsection \<open>Recording\<close>

text \<open>The snapshot of the ring buffers a manual stop freezes, oldest sample first.\<close>

definition freeze_buffers :: "pipeline \<Rightarrow> real option list list" where
  "freeze_buffers st =
     (let samples = (case bufferRef st of [] \<Rightarrow> 1 | b # _ \<Rightarrow> if length b = 0 then 1 else length b)
      in map (\<lambda>arr. map (\<lambda>s. rd arr (int ((writeIndex st + s) mod samples))) [0 ..< samples])
           (bufferRef st))"

text \<open>
  \<open>stopRecording({auto, captureSecond})\<close>.  With \<open>recordRef.current.data\<close> still
  \<open>null\<close> the property read throws; \<open>Inl\<close> is the state at the throw.
\<close>

definition stopRecording :: "render_closure \<Rightarrow> bool \<Rightarrow> int \<Rightarrow> pipeline \<Rightarrow> pipeline + pipeline" where
  "stopRecording cl auto captureSecond st =
     (if \<not> isRecording cl \<and> \<not> auto \<and> \<not> active (recordRef st) then Inr st
      else
        let st1 = st \<lparr> recordRef := (recordRef st) \<lparr> active := False \<rparr>, isRecordingState := False \<rparr>
        in case dataR (recordRef st1) of
             None \<Rightarrow> Inl st1
           | Some data \<Rightarrow>
               let snap = (if auto then auto_snapshot (sampleRateRef st1) captureSecond data
                           else manual_snapshot (sampleRateRef st1) data);
                   st2 = st1 \<lparr> recordedData := Some (normalize_snap (advancedReport cl) snap) \<rparr>;
                   st3 = (if \<not> auto
                          then st2 \<lparr> frozenBuffer := Some (freeze_buffers st2),
                                     freezeDisplay := True, manualStop := True \<rparr>
                          else st2 \<lparr> frozenBuffer := None, freezeDisplay := False \<rparr>)
               in Inr (st3 \<lparr> isWaitingState := True, waitProgress := 0 \<rparr>))"

text \<open>\<open>startRecording\<close> once the device is connected; \<open>nowSec\<close> is \<open>Date.now() / 1000\<close>.\<close>

definition startRecording :: "real \<Rightarrow> pipeline \<Rightarrow> pipeline" where
  "startRecording nowSec st =
     st \<lparr> recordRef := \<lparr> active = True, dataR = Some (map (\<lambda>_. []) leads), count = 0,
                          startTime = Some nowSec \<rparr>,
          autoStopTriggered := False, manualStop := False,
          frozenBuffer := None, freezeDisplay := False,
          recordingProgress := 0, isRecordingState := True \<rparr>"

text \<open>
  The recording block of the read loop: append the sample to the six arrays, and stop once
  15 s have passed on the clock, at most once.
\<close>

definition CAPTURE_SECONDS :: int where
  "CAPTURE_SECONDS = 15"

definition record_sample :: "render_closure \<Rightarrow> real \<Rightarrow> real list \<Rightarrow> pipeline \<Rightarrow> pipeline" where
  "record_sample cl nowSec mvs st =
     (case dataR (recordRef st) of
        None \<Rightarrow> st
      | Some data \<Rightarrow>
          if \<not> active (recordRef st) then st
          else
            let start = (case startTime (recordRef st) of
                           None \<Rightarrow> nowSec | Some t \<Rightarrow> if t = 0 then nowSec else t);
                duration = nowSec - start;
                st1 = st \<lparr> recordRef := (recordRef st)
                             \<lparr> dataR := Some (map2 (\<lambda>arr v. arr @ [v]) data mvs),
                               count := count (recordRef st) + 1 \<rparr>,
                           recordingProgress := duration \<rparr>
            in if duration \<ge> real_of_int CAPTURE_SECONDS \<and> \<not> autoStopTriggered st1
               then (case stopRecording cl True CAPTURE_SECONDS (st1 \<lparr> autoStopTriggered := True \<rparr>) of
                       Inr st2 \<Rightarrow> st2 | Inl st2 \<Rightarrow> st2)
               else st1)"

subsection \<open>The read loop of \<open>connect\<close>\<close>

text \<open>What \<open>connect\<close> does once the port is open, before the first read.\<close>

definition connect_open :: "pipeline \<Rightarrow> pipeline" where
  "connect_open st = st \<lparr> calibrating := True, calibTimeoutArmed := True \<rparr>"

text \<open>The 5 s timer, if it has not been cleared.\<close>

definition calib_timeout :: "pipeline \<Rightarrow> pipeline" where
  "calib_timeout st =
     (if calibTimeoutArmed st then st \<lparr> calibrating := False, calibTimeoutArmed := False \<rparr>
      else st)"

text \<open>A parsed sample that passed the calibration test: convert, filter, record, buffer.\<close>

definition store_sample :: "render_closure \<Rightarrow> real \<Rightarrow> jsnum list \<Rightarrow> pipeline \<Rightarrow> pipeline" where
  "store_sample cl nowSec arr st =
     (case (if filterOn cl then filter_from 0 (map (valueToMv (inputUnits cl)) arr) (filtersRef st)
            else (map (valueToMv (inputUnits cl)) arr, filtersRef st)) of
        (mvs, f) \<Rightarrow> write_buffers cl mvs (record_sample cl nowSec mvs (st \<lparr> filtersRef := f \<rparr>)))"

text \<open>
  The body of \<open>for (let line of lines)\<close> for one line; \<open>nowSec\<close> is the clock at that
  moment.  The calibration test reads the closure's \<open>isCalibrating\<close>.
\<close>

definition handle_line ::
  "render_closure \<Rightarrow> (string \<Rightarrow> six option) \<Rightarrow> real \<Rightarrow> string \<Rightarrow> pipeline \<Rightarrow> pipeline" where
  "handle_line cl json_leads nowSec raw st =
     (if trim raw = [] then st
      else if str_includes (toLowerCase (trim raw)) ''calibration complete''
            \<or> str_includes (toLowerCase (trim raw)) ''calibrated''
            \<or> str_includes (toLowerCase (trim raw)) ''calibration done''
      then st \<lparr> calibrating := False, calibTimeoutArmed := False \<rparr>
      else if str_includes (toLowerCase (trim raw)) ''starting''
            \<and> str_includes (toLowerCase (trim raw)) ''calibration''
      then st \<lparr> calibrating := True \<rparr>
      else (case parseSample json_leads (trim raw) of
              None \<Rightarrow> st
            | Some arr \<Rightarrow> if isCalibrating cl then st else store_sample cl nowSec arr st))"

text \<open>The lines of a connection in arrival order, each with the clock reading.\<close>

definition handle_lines ::
  "render_closure \<Rightarrow> (string \<Rightarrow> six option) \<Rightarrow> (real \<times> string) list \<Rightarrow> pipeline \<Rightarrow> pipeline" where
  "handle_lines cl json_leads ls st =
     fold (\<lambda>(nowSec, raw) s. handle_line cl json_leads nowSec raw s) ls st"

text \<open>
  The component after its first render and effects, with the default settings, and the
  closure of that render: every \<open>useState\<close> at its initial value.
\<close>

definition mounted :: pipeline where
  "mounted =
     buffer_reset 125 5
       \<lparr> calibrating = False, calibTimeoutArmed = False, sampleRateRef = 125,
         filtersRef = filter_reset 125,
         recordRef = \<lparr> active = False, dataR = None, count = 0, startTime = None \<rparr>,
         autoStopTriggered = False, bufferRef = [], writeIndex = 0, recordingProgress = 0,
         isRecordingState = False, isWaitingState = False, waitProgress = 0,
         recordedData = None, frozenBuffer = None, freezeDisplay = False, manualStop = False \<rparr>"

definition first_render :: render_closure where
  "first_render =
     \<lparr> isCalibrating = False, filterOn = True, inputUnits = Mv, sampleRate = 125,
       secondsWindow = 5, isRecording = False, advancedReport = True \<rparr>"

text \<open>
  The pipeline of a mounted component in which \<open>n\<close> samples have been recorded since
  \<open>startRecording\<close> at clock \<open>start\<close>; \<open>g l k\<close> is sample \<open>k\<close> of lead \<open>l\<close>.
\<close>

definition recording_state :: "(nat \<Rightarrow> nat \<Rightarrow> real) \<Rightarrow> nat \<Rightarrow> real \<Rightarrow> pipeline" where
  "recording_state g n start =
     mounted \<lparr> recordRef := \<lparr> active = True,
                               dataR = Some (map (\<lambda>l. map (g l) [0 ..< n]) [0, 1, 2, 3, 4, 5]),
                               count = n, startTime = Some start \<rparr>,
               isRecordingState := True \<rparr>"

section \<open>Reference formulations used by the theorems\<close>

text \<open>
  The time-domain statistics as the specification words them, on the list itself: the
  mean, the standard deviation about the mean (SDNN, over all \<open>n\<close> intervals), the root
  of the mean squared difference of neighbouring intervals (RMSSD) and the percentage of
  neighbouring pairs that differ by more than a threshold (pNN50, pNN20).
\<close>

definition spec_meanRR :: "real list \<Rightarrow> real" where
  "spec_meanRR rr = sum_list rr / real (length rr)"

definition spec_variance :: "real list \<Rightarrow> real" where
  "spec_variance rr = (\<Sum>x\<leftarrow>rr. (x - spec_meanRR rr)\<^sup>2) / real (length rr)"

definition spec_SDNN :: "real list \<Rightarrow> real" where
  "spec_SDNN rr = sqrt (spec_variance rr)"

definition spec_RMSSD :: "real list \<Rightarrow> real" where
  "spec_RMSSD rr =
     sqrt ((\<Sum>(a, b)\<leftarrow>zip rr (tl rr). (b - a)\<^sup>2) / real (length rr - 1))"

definition spec_pNN :: "real \<Rightarrow> real list \<Rightarrow> real" where
  "spec_pNN thr rr =
     100 * real (length (filter (\<lambda>(a, b). \<bar>b - a\<bar> > thr) (zip rr (tl rr))))
       / real (length rr - 1)"


section \<open>Theorems\<close>

subsection \<open>HRV engine\<close>

text \<open>
  C7. For every R-R interval list of length at least 3, the HRV engine sets a status, and
  it is the one the ordered rules give on the list's SDNN and RMSSD: low if sdnn < 30 or
  rmssd < 15; otherwise athletic if sdnn > 80 and rmssd > 40; otherwise high if sdnn > 50
  and rmssd > 25; otherwise normal.
\<close>

theorem hrv_status_precedence:
  assumes "3 \<le> length rr"
  shows "\<exists>m. calculateAdvancedHRV rr = Some (spec_hrv_status (hrv_sdnn rr) (hrv_rmssd rr), m)"
  using assms by (simp add: calculateAdvancedHRV_def spec_hrv_status_def Let_def)

lemma less_sqrt_iff: "0 \<le> a \<Longrightarrow> a < sqrt x \<longleftrightarrow> a\<^sup>2 < x"
  using real_sqrt_less_iff [of "a\<^sup>2" x] by simp

lemma sqrt_less_iff: "0 \<le> a \<Longrightarrow> sqrt x < a \<longleftrightarrow> x < a\<^sup>2"
  using real_sqrt_less_iff [of x "a\<^sup>2"] by simp

lemmas hrv_eval = spec_hrv_status_def hrv_sdnn_def hrv_rmssd_def hrv_variance_def
  hrv_meanRR_def reduce_sum_def less_sqrt_iff sqrt_less_iff

text \<open>
  One list per status.  The second list drifts by 14 ms per beat: its SDNN is above 80 but
  its RMSSD is 14, and the first rule decides: low.
\<close>

lemma drifting_list_sdnn:
  "hrv_sdnn [600, 614, 628, 642, 656, 670, 684, 698, 712, 726,
             740, 754, 768, 782, 796, 810, 824, 838, 852, 866] > 80"
  by (simp add: hrv_eval)

theorem hrv_status_precedence_witness:
  "(\<exists>m. calculateAdvancedHRV [800, 800, 800] = Some (Low, m))
   \<and> (\<exists>m. calculateAdvancedHRV
         [600, 614, 628, 642, 656, 670, 684, 698, 712, 726,
          740, 754, 768, 782, 796, 810, 824, 838, 852, 866] = Some (Low, m))
   \<and> (\<exists>m. calculateAdvancedHRV [700, 900, 700, 900] = Some (Athletic, m))
   \<and> (\<exists>m. calculateAdvancedHRV [740, 740, 740, 860, 860, 860] = Some (High, m))
   \<and> (\<exists>m. calculateAdvancedHRV [760, 760, 760, 840, 840, 840] = Some (Normal, m))"
  using hrv_status_precedence [of "[800, 800, 800]"]
    hrv_status_precedence [of "[600, 614, 628, 642, 656, 670, 684, 698, 712, 726,
          740, 754, 768, 782, 796, 810, 824, 838, 852, 866]"]
    hrv_status_precedence [of "[700, 900, 700, 900]"]
    hrv_status_precedence [of "[740, 740, 740, 860, 860, 860]"]
    hrv_status_precedence [of "[760, 760, 760, 840, 840, 840]"]
  by (simp add: hrv_eval)

text \<open>
  The loops and folds of \<open>calculateAdvancedHRV\<close> compute the reference statistics.
\<close>

lemma fold_plus: "fold (\<lambda>b a. a + b) xs s = s + sum_list xs" for s :: real
  by (induction xs arbitrary: s) simp_all

lemma reduce_sum_sum_list: "reduce_sum xs = sum_list xs"
  by (simp add: reduce_sum_def fold_plus)

lemma fold_squares: "fold (\<lambda>d s. s + d\<^sup>2) ds s = s + (\<Sum>d\<leftarrow>ds. d\<^sup>2)" for s :: real
  by (induction ds arbitrary: s) simp_all

lemma fold_count:
  "fold (\<lambda>d c. if P d then c + 1 else c) ds c = c + length (filter P ds)" for c :: nat
  by (induction ds arbitrary: c) simp_all

lemma succ_diffs_zip: "succ_diffs rr = map (\<lambda>(a, b). b - a) (zip rr (tl rr))"
  by (induction rr rule: succ_diffs.induct) simp_all

lemma hrv_meanRR_spec: "hrv_meanRR rr = spec_meanRR rr"
  by (simp add: hrv_meanRR_def spec_meanRR_def reduce_sum_sum_list)

lemma hrv_variance_spec: "hrv_variance rr = spec_variance rr"
  by (simp add: hrv_variance_def spec_variance_def reduce_sum_sum_list hrv_meanRR_spec)

lemma hrv_sdnn_spec: "hrv_sdnn rr = spec_SDNN rr"
  by (simp add: hrv_sdnn_def spec_SDNN_def hrv_variance_spec)

lemma hrv_rmssd_spec: "1 \<le> length rr \<Longrightarrow> hrv_rmssd rr = spec_RMSSD rr"
  by (simp add: hrv_rmssd_def spec_RMSSD_def fold_squares succ_diffs_zip comp_def
      case_prod_unfold of_nat_diff)

lemma hrv_pnn_spec: "2 \<le> length rr \<Longrightarrow> hrv_pnn thr rr = spec_pNN thr rr"
  by (simp add: hrv_pnn_def spec_pNN_def nn_count_def fold_count succ_diffs_zip filter_map
      comp_def case_prod_unfold of_nat_diff)

lemma Math_min_Min:
  assumes "rr \<noteq> []"
  shows "Math_min rr = Min (set rr)"
proof (cases rr)
  case Nil
  then show ?thesis using assms by simp
next
  case (Cons a list)
  then show ?thesis
    using Min.set_eq_fold [of a list] by simp
qed

lemma Math_max_Max:
  assumes "rr \<noteq> []"
  shows "Math_max rr = Max (set rr)"
proof (cases rr)
  case Nil
  then show ?thesis using assms by simp
next
  case (Cons a list)
  then show ?thesis
    using Max.set_eq_fold [of a list] by simp
qed

lemma sqrt_225: "sqrt 225 = 15"
  using real_sqrt_abs [of 15] by simp

lemma sqrt_900: "sqrt 900 = 30"
  using real_sqrt_abs [of 30] by simp

lemma sqrt_576: "sqrt 576 = 24"
  using real_sqrt_abs [of 24] by simp

lemma sqrt_2500: "sqrt 2500 = 50"
  using real_sqrt_abs [of 50] by simp

lemma sqrt_10000: "sqrt 10000 = 100"
  using real_sqrt_abs [of 100] by simp

lemmas hrv_values = hrv_sdnn_def hrv_rmssd_def hrv_variance_def hrv_meanRR_def hrv_pnn_def
  nn_count_def reduce_sum_def round1_def Math_round_def hrv_hfPower_def hrv_lfPower_def
  hrv_lfHfRatio_def sqrt_225 sqrt_900 sqrt_576 sqrt_2500 sqrt_10000

text \<open>
  C10. For every R-R interval list with at least 3 intervals the engine computes the
  time-domain metrics: the rounded mean, SDNN, RMSSD, pNN50 and pNN20 of the list, and the
  maximal and minimal heart rate from its shortest and longest interval.  With fewer than
  10 intervals it reports lfPower = 0, hfPower = 0 and lfHfRatio = 0, and only from 10
  intervals on does it apply the estimation formulas (HF from RMSSD squared, LF from the
  variance minus HF, their ratio).
\<close>

theorem hrv_frequency_domain_gate:
  assumes "3 \<le> length rr"
  shows "\<exists>st m. calculateAdvancedHRV rr = Some (st, m)
           \<and> meanRR m = Math_round (spec_meanRR rr)
           \<and> sdnn m = round1 (spec_SDNN rr) \<and> rmssd m = round1 (spec_RMSSD rr)
           \<and> pnn50 m = round1 (spec_pNN 50 rr) \<and> pnn20 m = round1 (spec_pNN 20 rr)
           \<and> (0 < Min (set rr) \<longrightarrow>
                maxHR m = Math_round (60000 / Min (set rr))
              \<and> minHR m = Math_round (60000 / Max (set rr)))
           \<and> (length rr < 10 \<longrightarrow> lfPower m = 0 \<and> hfPower m = 0 \<and> lfHfRatio m = 0)
           \<and> (10 \<le> length rr \<longrightarrow>
                hfPower m = real_of_int (Math_round ((spec_RMSSD rr)\<^sup>2 / 100)) / 10
              \<and> lfPower m = max 0 (real_of_int (Math_round ((spec_variance rr / 100 - hfPower m) * 10)) / 10)
              \<and> lfHfRatio m = (if hfPower m > 0.01
                   then real_of_int (Math_round ((lfPower m / hfPower m) * 100)) / 100 else 0))"
proof -
  have ne: "rr \<noteq> []" and l1: "1 \<le> length rr" and l2: "2 \<le> length rr"
    using assms by auto
  show ?thesis
    using assms
    by (simp add: calculateAdvancedHRV_def Let_def hrv_hfPower_def hrv_lfPower_def
        hrv_lfHfRatio_def power2_eq_square hrv_meanRR_spec hrv_variance_spec hrv_sdnn_spec
        hrv_rmssd_spec [OF l1] hrv_pnn_spec [OF l2] Math_min_Min [OF ne] Math_max_Max [OF ne])
qed

text \<open>
  Three lists with their metrics: four and five intervals (frequency fields 0) and ten
  intervals (frequency fields from the formulas).  The reference statistics round to the
  same values.
\<close>

theorem hrv_frequency_domain_gate_witness:
  "(\<exists>st m. calculateAdvancedHRV [800, 830, 800, 830] = Some (st, m)
      \<and> meanRR m = 815 \<and> sdnn m = 15 \<and> rmssd m = 30 \<and> pnn50 m = 0 \<and> pnn20 m = 100
      \<and> minHR m = 72 \<and> maxHR m = 75
      \<and> lfPower m = 0 \<and> hfPower m = 0 \<and> lfHfRatio m = 0
      \<and> round1 (spec_SDNN [800, 830, 800, 830]) = 15
      \<and> round1 (spec_RMSSD [800, 830, 800, 830]) = 30
      \<and> round1 (spec_pNN 50 [800, 830, 800, 830]) = 0
      \<and> round1 (spec_pNN 20 [800, 830, 800, 830]) = 100)
   \<and> (\<exists>st m. calculateAdvancedHRV [800, 860, 860, 860, 860] = Some (st, m)
      \<and> meanRR m = 848 \<and> sdnn m = 24 \<and> rmssd m = 30 \<and> pnn50 m = 25 \<and> pnn20 m = 25
      \<and> minHR m = 70 \<and> maxHR m = 75
      \<and> lfPower m = 0 \<and> hfPower m = 0 \<and> lfHfRatio m = 0
      \<and> round1 (spec_SDNN [800, 860, 860, 860, 860]) = 24
      \<and> round1 (spec_RMSSD [800, 860, 860, 860, 860]) = 30
      \<and> round1 (spec_pNN 50 [800, 860, 860, 860, 860]) = 25
      \<and> round1 (spec_pNN 20 [800, 860, 860, 860, 860]) = 25)
   \<and> (\<exists>st m. calculateAdvancedHRV [800, 900, 800, 900, 800, 900, 800, 900, 800, 900] = Some (st, m)
      \<and> meanRR m = 850 \<and> sdnn m = 50 \<and> rmssd m = 100 \<and> pnn50 m = 100 \<and> pnn20 m = 100
      \<and> minHR m = 67 \<and> maxHR m = 75
      \<and> hfPower m = 10 \<and> lfPower m = 15 \<and> lfHfRatio m = 3 / 2
      \<and> round1 (spec_SDNN [800, 900, 800, 900, 800, 900, 800, 900, 800, 900]) = 50
      \<and> round1 (spec_RMSSD [800, 900, 800, 900, 800, 900, 800, 900, 800, 900]) = 100
      \<and> round1 (spec_pNN 50 [800, 900, 800, 900, 800, 900, 800, 900, 800, 900]) = 100)"
proof (intro conjI)
  let ?a = "[800, 830, 800, 830] :: real list"
  obtain st m where m: "calculateAdvancedHRV ?a = Some (st, m)"
    and s: "sdnn m = round1 (spec_SDNN ?a)" "rmssd m = round1 (spec_RMSSD ?a)"
      "pnn50 m = round1 (spec_pNN 50 ?a)" "pnn20 m = round1 (spec_pNN 20 ?a)"
    and f: "lfPower m = 0" "hfPower m = 0" "lfHfRatio m = 0"
    using hrv_frequency_domain_gate [of ?a] by auto
  have "meanRR m = 815" "sdnn m = 15" "rmssd m = 30" "pnn50 m = 0" "pnn20 m = 100"
    "minHR m = 72" "maxHR m = 75"
    using m by (auto simp: calculateAdvancedHRV_def Let_def hrv_values)
  then show "\<exists>st m. calculateAdvancedHRV ?a = Some (st, m)
      \<and> meanRR m = 815 \<and> sdnn m = 15 \<and> rmssd m = 30 \<and> pnn50 m = 0 \<and> pnn20 m = 100
      \<and> minHR m = 72 \<and> maxHR m = 75
      \<and> lfPower m = 0 \<and> hfPower m = 0 \<and> lfHfRatio m = 0
      \<and> round1 (spec_SDNN ?a) = 15 \<and> round1 (spec_RMSSD ?a) = 30
      \<and> round1 (spec_pNN 50 ?a) = 0 \<and> round1 (spec_pNN 20 ?a) = 100"
    using m s f by simp
next
  let ?b = "[800, 860, 860, 860, 860] :: real list"
  obtain st m where m: "calculateAdvancedHRV ?b = Some (st, m)"
    and s: "sdnn m = round1 (spec_SDNN ?b)" "rmssd m = round1 (spec_RMSSD ?b)"
      "pnn50 m = round1 (spec_pNN 50 ?b)" "pnn20 m = round1 (spec_pNN 20 ?b)"
    and f: "lfPower m = 0" "hfPower m = 0" "lfHfRatio m = 0"
    using hrv_frequency_domain_gate [of ?b] by auto
  have "meanRR m = 848" "sdnn m = 24" "rmssd m = 30" "pnn50 m = 25" "pnn20 m = 25"
    "minHR m = 70" "maxHR m = 75"
    using m by (auto simp: calculateAdvancedHRV_def Let_def hrv_values)
  then show "\<exists>st m. calculateAdvancedHRV ?b = Some (st, m)
      \<and> meanRR m = 848 \<and> sdnn m = 24 \<and> rmssd m = 30 \<and> pnn50 m = 25 \<and> pnn20 m = 25
      \<and> minHR m = 70 \<and> maxHR m = 75
      \<and> lfPower m = 0 \<and> hfPower m = 0 \<and> lfHfRatio m = 0
      \<and> round1 (spec_SDNN ?b) = 24 \<and> round1 (spec_RMSSD ?b) = 30
      \<and> round1 (spec_pNN 50 ?b) = 25 \<and> round1 (spec_pNN 20 ?b) = 25"
    using m s f by simp
next
  let ?c = "[800, 900, 800, 900, 800, 900, 800, 900, 800, 900] :: real list"
  obtain st m where m: "calculateAdvancedHRV ?c = Some (st, m)"
    and s: "sdnn m = round1 (spec_SDNN ?c)" "rmssd m = round1 (spec_RMSSD ?c)"
      "pnn50 m = round1 (spec_pNN 50 ?c)"
    using hrv_frequency_domain_gate [of ?c] by auto
  have "meanRR m = 850" "sdnn m = 50" "rmssd m = 100" "pnn50 m = 100" "pnn20 m = 100"
    "minHR m = 67" "maxHR m = 75" "hfPower m = 10" "lfPower m = 15" "lfHfRatio m = 3 / 2"
    using m by (auto simp: calculateAdvancedHRV_def Let_def hrv_values)
  then show "\<exists>st m. calculateAdvancedHRV ?c = Some (st, m)
      \<and> meanRR m = 850 \<and> sdnn m = 50 \<and> rmssd m = 100 \<and> pnn50 m = 100 \<and> pnn20 m = 100
      \<and> minHR m = 67 \<and> maxHR m = 75
      \<and> hfPower m = 10 \<and> lfPower m = 15 \<and> lfHfRatio m = 3 / 2
      \<and> round1 (spec_SDNN ?c) = 50 \<and> round1 (spec_RMSSD ?c) = 100
      \<and> round1 (spec_pNN 50 ?c) = 100"
    using m s by simp
qed

subsection \<open>Beat detector\<close>

lemma upt7: "[k ..< k + 7] = [k, k + 1, k + 2, k + 3, k + 4, k + 5, k + 6]"
proof -
  have "[k ..< k + 7] = map (\<lambda>i. i + k) [0 ..< 7]"
    by (simp add: map_add_upt add.commute)
  also have "[0 ..< 7] = [0, 1, 2, 3, 4, 5, 6::nat]"
    by (simp add: upt_rec)
  finally show ?thesis by (simp add: add.commute)
qed

lemma neighbours_mid:
  assumes "3 \<le> m" and "m + 4 \<le> len"
  shows "neighbours len m = [m - 3, m - 2, m - 1, m + 1, m + 2, m + 3]"
proof -
  obtain k where k: "m = k + 3"
    using assms(1) by (metis add.commute le_Suc_ex)
  have "m - 3 = k" "m + 4 = k + 7"
    by (simp_all add: k)
  then have "[m - 3 ..< m + 4] = [k ..< k + 7]"
    by presburger
  then show ?thesis
    using assms(2) unfolding neighbours_def upt7 by (simp add: k)
qed

lemmas detector_eval = detectRPeakMultiLead_def elem_or_zero_def in_refractory_def
  push_sample_def test_window_def on_peak_def midSample_def store_interval_def ectopic_def
  smoothedHR_def slice_last_def isPeak_def peak_threshold_def neighbours_mid
  accept_interval_def reduce_sum_def detector_init_def Let_def










text \<open>What the refractory test does guarantee: a call within 300 ms of the last accepted
  beat changes nothing, and its sample never enters the window.\<close>

lemma refractory_on_arrival:
  "lastRPeak st = Some l \<Longrightarrow> now - l < 300 \<Longrightarrow> detectRPeakMultiLead now mvs st = st"
  by (simp add: detectRPeakMultiLead_def in_refractory_def)

text \<open>
  C5 at a concrete stream.  A 125 Hz stream whose Lead II is 0 except 1.0 mV at samples 4
  and 104 (32 ms and 832 ms, two beats 800 ms apart) and 0.8 mV at sample 8 (64 ms).  The
  beat at 32 ms is accepted at the call of sample 8.  The calls of samples 9 to 41 return at
  the refractory test, but the window keeps its samples; once calls resume, sample 8
  reaches the middle of the window at the call of sample 48 and is accepted as a peak:
  \<open>lastRPeakRef\<close> goes from 32 to 64, two accepted beats 32 ms apart.  The interval of
  the next beat is then measured from 64: 768 ms is stored, not 800.
\<close>

theorem refractory_stale_window:
  "peaks (detector_run (stream125 [(4, 1), (8, 0.8), (104, 1)] 120)) = [32, 64, 832]
   \<and> rrIntervals (detector_run (stream125 [(4, 1), (8, 0.8), (104, 1)] 120)) = [768]"
  apply (simp add: stream125_def upt_rec detector_run_def)
  apply (simp add: detector_eval)
  done

subsection \<open>Morphology/Risk engine\<close>

lemma nth_concat_replicate:
  "i < n * length xs \<Longrightarrow> concat (replicate n xs) ! i = xs ! (i mod length xs)"
proof (induction n arbitrary: i)
  case 0
  then show ?case by simp
next
  case (Suc n)
  show ?case
  proof (cases "i < length xs")
    case True
    then show ?thesis by (simp add: nth_append)
  next
    case False
    then have "i - length xs < n * length xs"
      using Suc.prems by simp
    then have "concat (replicate n xs) ! (i - length xs) = xs ! ((i - length xs) mod length xs)"
      by (rule Suc.IH)
    moreover have "(i - length xs) mod length xs = i mod length xs"
      using False by (simp add: le_mod_geq)
    ultimately show ?thesis
      using False by (simp add: nth_append)
  qed
qed

lemma length_spike_train: "pos < period \<Longrightarrow> length (spike_train n period pos) = n * period"
  by (simp add: spike_train_def length_concat sum_list_replicate)

lemma rd_spike_train:
  assumes "pos < period" and "0 \<le> i" and "i < int (n * period)"
  shows "rd (spike_train n period pos) i = Some (if nat i mod period = pos then 1 else 0)"
proof -
  let ?beat = "replicate pos (0::real) @ [1] @ replicate (period - pos - 1) 0"
  have len: "length ?beat = period"
    using assms(1) by simp
  have "nat i < n * length ?beat"
    using assms len by (simp add: nat_less_iff)
  then have "spike_train n period pos ! nat i = ?beat ! (nat i mod period)"
    unfolding spike_train_def using nth_concat_replicate [of "nat i" n ?beat] len by simp
  moreover have "?beat ! j = (if j = pos then 1 else 0)" if "j < period" for j
    using that assms(1) by (auto simp: nth_append nth_Cons')
  ultimately have "spike_train n period pos ! nat i = (if nat i mod period = pos then 1 else 0)"
    using assms(1) by simp
  then show ?thesis
    using assms by (simp add: rd_def length_spike_train)
qed

lemma rd_spike_train_out:
  "pos < period \<Longrightarrow> i < 0 \<or> int (n * period) \<le> i \<Longrightarrow> rd (spike_train n period pos) i = None"
  by (auto simp: rd_def length_spike_train)

lemma maxAmp_01:
  "set xs \<subseteq> {0, 1} \<Longrightarrow> m = 0 \<or> m = 1 \<Longrightarrow>
   fold (\<lambda>x m. if \<bar>x\<bar> > m then \<bar>x\<bar> else m) xs m = (if 1 \<in> set xs then 1 else (m::real))"
proof (induction xs arbitrary: m)
  case Nil
  then show ?case by simp
next
  case (Cons x xs)
  let ?f = "\<lambda>(x::real) m. if \<bar>x\<bar> > m then \<bar>x\<bar> else m"
  have xs: "set xs \<subseteq> {0, 1}" and x: "x = 0 \<or> x = 1"
    using Cons.prems(1) by auto
  have step: "fold ?f (x # xs) m = fold ?f xs (?f x m)"
    by simp
  show ?case
  proof (cases "x = 1")
    case True
    have "?f x m = 1"
      using True Cons.prems(2) by auto
    then have "fold ?f (x # xs) m = fold ?f xs 1"
      using step by (simp only:)
    also have "\<dots> = (if 1 \<in> set xs then 1 else 1)"
      using xs by (rule Cons.IH) simp
    finally show ?thesis
      using True by simp
  next
    case False
    then have x0: "x = 0" using x by simp
    have "?f x m = m"
      using x0 Cons.prems(2) by auto
    then have "fold ?f (x # xs) m = fold ?f xs m"
      using step by (simp only:)
    also have "\<dots> = (if 1 \<in> set xs then 1 else m)"
      using xs Cons.prems(2) by (rule Cons.IH)
    finally show ?thesis
      using x0 by simp
  qed
qed

lemma maxAmp_spike_train: "0 < n \<Longrightarrow> pos < period \<Longrightarrow> maxAmp (spike_train n period pos) = 1"
proof -
  assume a: "0 < n" "pos < period"
  have "set (spike_train n period pos) \<subseteq> {0, 1}"
    by (auto simp: spike_train_def)
  moreover have "1 \<in> set (spike_train n period pos)"
    using a by (auto simp: spike_train_def)
  ultimately show ?thesis
    unfolding maxAmp_def using maxAmp_01 [of "spike_train n period pos" 0] by presburger
qed

lemma detectRPeaks_150bpm: "detectRPeaks (spike_train 5 50 25) 125 = [25, 75, 125, 175, 225]"
  apply (simp add: detectRPeaks_def Math_floor_def maxAmp_spike_train length_spike_train)
  apply (simp add: peak_scan_def rd_spike_train cmp_opt_def isMax_def)
  done

text \<open>
  C3 at a concrete strip.  Two seconds of Lead II at 125 Hz with a 1 mV spike every 50
  samples (0.4 s, 150 bpm): the engine finds the five peaks and reports a heart rate of 150
  with status warning, where the claim has danger above 120.  The \<open>else if\<close> chain of
  \<open>calculateHeartRate\<close> tests \<open>hr < 60\<close> and \<open>hr > 100\<close> first, so its third
  branch is never taken: no peak list gives the status danger.
\<close>

theorem heart_rate_danger_unreachable:
  "m_hr (snd (RiskAnalysis (Some \<lparr> leadII = Some (spike_train 5 50 25) \<rparr>) 125))
     = \<lparr> hr = Val 150, hr_status = StWarning, hr_rrInterval = Val 400 \<rparr>
   \<and> (\<forall>rPeaks sr. hr_status (calculateHeartRate rPeaks sr) \<noteq> StDanger)"
proof -
  have "peak_gaps [25, 75, 125, 175, 225] = [50, 50, 50, 50]"
    by (simp add: peak_gaps_def)
  then have "calculateHeartRate [25, 75, 125, 175, 225] 125
      = \<lparr> hr = Val 150, hr_status = StWarning, hr_rrInterval = Val 400 \<rparr>"
    by (simp add: calculateHeartRate_def Let_def reduce_sum_def Math_round_def)
  then have "m_hr (snd (RiskAnalysis (Some \<lparr> leadII = Some (spike_train 5 50 25) \<rparr>) 125))
      = \<lparr> hr = Val 150, hr_status = StWarning, hr_rrInterval = Val 400 \<rparr>"
    by (simp add: RiskAnalysis_def analyse_def Let_def length_spike_train detectRPeaks_150bpm)
  moreover have "hr_status (calculateHeartRate rPeaks sr) \<noteq> StDanger" for rPeaks sr
    by (simp add: calculateHeartRate_def Let_def)
  ultimately show ?thesis by blast
qed

text \<open>
  C9. When \<open>leadData\<close> is absent, or has no \<open>leadII\<close>, or its \<open>leadII\<close> holds fewer
  than \<open>2 * sampleRate\<close> samples, the engine returns the sentinel metrics (every value
  \<open>'--'\<close> with status unknown, risk score 0 with level unknown and no factors) and has called
  none of the analysis functions, R-peak detection included.
\<close>

theorem risk_sentinel_on_short_input:
  "RiskAnalysis None sr = ([], getDefaultMetrics)
   \<and> RiskAnalysis (Some \<lparr> leadII = None \<rparr>) sr = ([], getDefaultMetrics)
   \<and> (real (length samples) < 2 * sr \<longrightarrow>
        RiskAnalysis (Some \<lparr> leadII = Some samples \<rparr>) sr = ([], getDefaultMetrics))
   \<and> getDefaultMetrics =
       \<lparr> m_hr = \<lparr> hr = Dashes, hr_status = StUnknown, hr_rrInterval = Dashes \<rparr>,
         m_hrv = \<lparr> hrv_sdnn_ms = Dashes, hrv_rmssd_ms = Dashes, hrv_status = StUnknown \<rparr>,
         m_qrs = \<lparr> qrs_duration = Dashes, qrs_status = StUnknown \<rparr>,
         m_qt = \<lparr> qt = Dashes, qtc = Dashes, qt_status = StUnknown \<rparr>,
         m_st = \<lparr> st_deviation = Dashes, st_status = StUnknown \<rparr>,
         m_risk = \<lparr> score = 0, level = LevelUnknown, factors = [] \<rparr> \<rparr>"
  by (simp add: RiskAnalysis_def getDefaultMetrics_def mult.commute)

text \<open>100 samples at 125 Hz are less than two seconds.\<close>

theorem risk_sentinel_on_short_input_witness:
  "real (length (replicate 100 (0::real))) < 2 * 125
   \<and> RiskAnalysis (Some \<lparr> leadII = Some (replicate 100 0) \<rparr>) 125 = ([], getDefaultMetrics)"
  using risk_sentinel_on_short_input [of 125 "replicate 100 0"] by simp

subsection \<open>Sample parser\<close>

lemmas string_eval = is_ws_def trim_def lower_char_def toLowerCase_def is_digit_def
  digit_val_def digits_val_def fraction_digits_def matchNum_def parseFloat_token_def
  nums_of_def Let_def

lemma nums_of_example: "nums_of ''0.5,0.8'' = [1 / 2, 4 / 5]"
  by (simp add: string_eval)

lemma nums_of_mixed: "nums_of ''a-1.25 x-y 7. 3.x1-2'' = [- 5 / 4, 7, 3, 1, - 2]"
  by (simp add: string_eval)






subsection \<open>Ring buffers\<close>

lemma Math_floor_int: "Math_floor (real_of_int n) = n"
  by (simp add: Math_floor_def)

lemma Math_round_int: "Math_round (real_of_int n) = n"
  unfolding Math_round_def by linarith

lemma replicate6: "replicate 6 x = [x, x, x, x, x, x]"
  by (simp add: eval_nat_numeral)

text \<open>
  C8. Whenever \<open>sampleRate\<close> or \<open>secondsWindow\<close> changes, the effect leaves six buffers
  of capacity max(1, round(sampleRate * secondsWindow)), all zero whatever they held before,
  and the write cursor at 0.  Both settings are integers, so the \<open>Math.floor\<close> of the
  source and the rounding of the claim give the same capacity.
\<close>

theorem buffers_recreated:
  "bufferRef (buffer_reset sr sw st)
     = replicate 6 (replicate (nat (max 1 (Math_round (real_of_int sr * real_of_int sw)))) 0)
   \<and> writeIndex (buffer_reset sr sw st) = 0"
proof -
  have "Math_floor (real_of_int sr * real_of_int sw) = Math_round (real_of_int sr * real_of_int sw)"
    using Math_floor_int [of "sr * sw"] Math_round_int [of "sr * sw"] by simp
  then show ?thesis
    by (simp add: buffer_reset_def buffer_capacity_def leads_def replicate6)
qed

subsection \<open>Auto-stop\<close>

lemma Math_floor_times: "Math_floor (real_of_int k * real_of_int n) = k * n"
  using Math_floor_int [of "k * n"] by simp

text \<open>
  With at least one second of samples the excerpt of a lead holds exactly \<open>sampleRate\<close>
  samples.
\<close>

lemma auto_excerpt_length:
  assumes "1 \<le> sr" and "nat sr \<le> length arr"
  shows "length (auto_excerpt sr 15 arr) = nat sr"
proof -
  have f1: "Math_floor (1 * real_of_int sr) = sr"
    using Math_floor_int [of sr] by simp
  have f15: "Math_floor (real_of_int 15 * real_of_int sr) = 15 * sr"
    by (rule Math_floor_times)
  show ?thesis
    unfolding auto_excerpt_def Let_def f1 f15
    using assms by (auto simp: js_slice_def js_slice_from_def slice_index_def)
qed

text \<open>
  C2 at the 15 s boundary of a 125 Hz recording.  1875 samples per lead have been recorded
  since the start at clock 1000; the sample that arrives at clock 1015 fires the auto-stop.
  The report then holds, for Lead II (under both of its names), the 125 samples 1750 to
  1874; but it has no \<open>__meta\<close> property.  \<open>stopRecording\<close> writes the metadata
  (\<open>excerptSeconds = 1\<close>, \<open>captureAt = 15\<close>) to \<open>snap\<close>, and only the twelve lead
  properties are copied from \<open>snap\<close> to the object it stores as the report.
\<close>

theorem auto_stop_report_without_meta:
  "(\<exists>rep. recordedData (record_sample first_render 1015 (map (\<lambda>l. g l 1875) [0, 1, 2, 3, 4, 5])
                           (recording_state g 1875 1000)) = Some rep
      \<and> rep ''Lead II'' = Some (JArr (map (g 1) [1750 ..< 1875]))
      \<and> rep ''II'' = Some (JArr (map (g 1) [1750 ..< 1875]))
      \<and> length (map (g 1) [1750 ..< 1875]) = 125
      \<and> rep ''__meta'' = None)
   \<and> auto_snapshot 125 15 data ''__meta''
       = Some (JMeta \<lparr> excerptSeconds = 1, captureAt = Some 15, sampleIndexEnd = Some 1875 \<rparr>)"
proof
  show "\<exists>rep. recordedData (record_sample first_render 1015 (map (\<lambda>l. g l 1875) [0, 1, 2, 3, 4, 5])
                           (recording_state g 1875 1000)) = Some rep
      \<and> rep ''Lead II'' = Some (JArr (map (g 1) [1750 ..< 1875]))
      \<and> rep ''II'' = Some (JArr (map (g 1) [1750 ..< 1875]))
      \<and> length (map (g 1) [1750 ..< 1875]) = 125
      \<and> rep ''__meta'' = None"
    apply (simp add: record_sample_def recording_state_def mounted_def buffer_reset_def
        first_render_def CAPTURE_SECONDS_def stopRecording_def Let_def)
    apply (simp add: auto_snapshot_def leads_def shorts_def normalize_snap_def setLead_def
        derive_missing_def missing_def Let_def)
    apply (simp add: auto_excerpt_def Math_floor_def js_slice_def slice_index_def Let_def
        drop_map take_map)
    done
  show "auto_snapshot 125 15 data ''__meta''
       = Some (JMeta \<lparr> excerptSeconds = 1, captureAt = Some 15, sampleIndexEnd = Some 1875 \<rparr>)"
    by (simp add: auto_snapshot_def Math_floor_def)
qed

subsection \<open>Calibration gate\<close>

lemma starting_calibration_line:
  "handle_line cl json_leads t ''Starting Calibration'' st = st \<lparr> calibrating := True \<rparr>"
  by (simp add: handle_line_def string_eval)

lemma calibration_complete_line:
  "handle_line cl json_leads t ''Calibration Complete'' st
     = st \<lparr> calibrating := False, calibTimeoutArmed := False \<rparr>"
  by (simp add: handle_line_def string_eval)

lemma parse_example:
  "parseSample json_leads ''0.5,0.8''
     = Some [Num (1 / 2), Num (4 / 5), Num (3 / 10), Num (- (13 / 20)), Num (1 / 10), Num (11 / 20)]"
  by (simp add: parseSample_def structured_leads_def derive_leads_def nums_of_example)

lemma sample_line:
  "handle_line cl json_leads t ''0.5,0.8'' st =
     (if isCalibrating cl then st
      else store_sample cl t
             [Num (1 / 2), Num (4 / 5), Num (3 / 10), Num (- (13 / 20)), Num (1 / 10), Num (11 / 20)]
             st)"
  by (simp add: handle_line_def string_eval parse_example)

lemmas store_eval = store_sample_def valueToMv_def record_sample_def connect_open_def
  mounted_def buffer_reset_def write_buffers_def ring_samples_def buffer_capacity_def
  Math_floor_def leads_def Let_def

text \<open>
  C1 on the first connection of a mounted component, where the render that created
  \<open>connect\<close> had \<open>isCalibrating = false\<close>.  After the line \<open>Starting Calibration\<close> the
  flag is set, and the sample line \<open>0.5,0.8\<close> that follows is still written: the cursor
  advances to 1 and, with the filter off, slot 0 of the six buffers holds the six leads.
  The test \<open>if (isCalibrating)\<close> of the read loop reads the binding of that render, which
  no call of \<open>setIsCalibrating\<close> changes.  In a connection opened from a render with
  \<open>isCalibrating = true\<close> the same test discards every sample, also after
  \<open>Calibration Complete\<close> has cleared the flag.
\<close>

theorem calibration_gate_stale:
  "calibrating (handle_lines first_render json_leads
       [(t1, ''Starting Calibration''), (t2, ''0.5,0.8'')] (connect_open mounted))
   \<and> writeIndex (handle_lines first_render json_leads
       [(t1, ''Starting Calibration''), (t2, ''0.5,0.8'')] (connect_open mounted)) = 1
   \<and> map (\<lambda>b. b ! 0) (bufferRef (handle_lines (first_render \<lparr> filterOn := False \<rparr>) json_leads
       [(t1, ''Starting Calibration''), (t2, ''0.5,0.8'')] (connect_open mounted)))
      = [1 / 2, 4 / 5, 3 / 10, - (13 / 20), 1 / 10, 11 / 20]
   \<and> \<not> calibrating (handle_lines (first_render \<lparr> isCalibrating := True \<rparr>) json_leads
       [(t1, ''Calibration Complete''), (t2, ''0.5,0.8'')] (connect_open mounted))
   \<and> handle_lines (first_render \<lparr> isCalibrating := True \<rparr>) json_leads
       [(t1, ''Calibration Complete''), (t2, ''0.5,0.8'')] (connect_open mounted)
      = mounted"
proof -
  let ?run = "\<lambda>cl. handle_lines cl json_leads
       [(t1, ''Starting Calibration''), (t2, ''0.5,0.8'')] (connect_open mounted)"
  have a: "calibrating (?run first_render) \<and> writeIndex (?run first_render) = 1"
    apply (simp add: handle_lines_def starting_calibration_line sample_line first_render_def)
    apply (simp add: store_eval filterSample_def split: prod.splits)
    done
  have b: "map (\<lambda>b. b ! 0) (bufferRef (?run (first_render \<lparr> filterOn := False \<rparr>)))
      = [1 / 2, 4 / 5, 3 / 10, - (13 / 20), 1 / 10, 11 / 20]"
    apply (simp add: handle_lines_def starting_calibration_line sample_line first_render_def)
    apply (simp add: store_eval upt_rec)
    done
  have c: "handle_lines (first_render \<lparr> isCalibrating := True \<rparr>) json_leads
       [(t1, ''Calibration Complete''), (t2, ''0.5,0.8'')] (connect_open mounted) = mounted"
    apply (simp add: handle_lines_def calibration_complete_line sample_line first_render_def)
    apply (simp add: connect_open_def mounted_def buffer_reset_def)
    done
  have d: "\<not> calibrating mounted"
    by (simp add: mounted_def buffer_reset_def)
  show ?thesis
    using a b c d by simp
qed


end
